theory Spec2Isabelle
  imports Main
begin

section \<open>Python values, exceptions and HTTP responses\<close>

text \<open>
  The service is a set of Flask resources (\<^verbatim>\<open>src/backend/app.py\<close>) on top of an
  object store (MinIO, through \<^verbatim>\<open>src/backend/search/io_tools.py\<close>), a metadata
  and topology store (\<^verbatim>\<open>src/backend/search/redis_tools.py\<close>, bound to the name
  \<^verbatim>\<open>db\<close>) and Celery as the execution backend. A handler is modelled as a function
  from the query parameters and the state of these collaborators to the outcome of the
  call (an exception or a response) and the new state.
\<close>

datatype py_error =
    NameError string
  | AttributeError string
  | TypeError
  | NoSuchKey
  | NoSuchBucket
  | FileNotFoundError
  | BackendUnavailable

datatype py_value = Str string | ModuleGlobal string

text \<open>The query parameters of a request, in the order they were sent.\<close>

type_synonym query_args = "(string \<times> string) list"

definition args_get :: "query_args \<Rightarrow> string \<Rightarrow> string option" where
  "args_get a k = map_of a k"

subsection \<open>Typed query parameters and \<^verbatim>\<open>int(s)\<close>\<close>

text \<open>
  \<^verbatim>\<open>request.args.get(key, type=conv)\<close> applies \<^verbatim>\<open>conv\<close> to the first value of the
  parameter and gives the default \<^verbatim>\<open>None\<close> when the parameter is absent or the
  conversion raises \<^verbatim>\<open>ValueError\<close>. The conversion is an argument of the lookup:
  \<open>conv s\<close> is \<open>None\<close> where \<^verbatim>\<open>conv(s)\<close> raises.
\<close>

definition args_get_typed :: "(string \<Rightarrow> 'a option) \<Rightarrow> query_args \<Rightarrow> string \<Rightarrow> 'a option" where
  "args_get_typed conv a k = (case map_of a k of None \<Rightarrow> None | Some s \<Rightarrow> conv s)"

text \<open>
  Python's builtin \<^verbatim>\<open>int\<close> on a \<^verbatim>\<open>str\<close>, the string being the list of the code
  points of the \<^verbatim>\<open>str\<close>, each below 256. \<^verbatim>\<open>int\<close> skips white space at both ends:
  the six characters TAB, LF, VT, FF, CR and space, and the two white-space characters
  above ASCII in this range, NEL (0x85) and NBSP (0xA0), which it first turns into spaces;
  the separators 0x1C to 0x1F are not skipped. It then reads one optional sign and decimal
  digits with single underscores between them; below 256 the only decimal digits are
  \<^verbatim>\<open>0\<close> to \<^verbatim>\<open>9\<close>. It raises \<^verbatim>\<open>ValueError\<close> on anything else, and on more than
  4300 digits.
\<close>

definition is_space :: "char \<Rightarrow> bool" where
  "is_space c =
     (c \<in> set [CHR 0x09, CHR 0x0A, CHR 0x0B, CHR 0x0C, CHR 0x0D, CHR '' '',
                CHR 0x85, CHR 0xA0])"

definition digit_val :: "char \<Rightarrow> nat option" where
  "digit_val c =
     (let n = (of_char c :: nat) in if 48 \<le> n \<and> n \<le> 57 then Some (n - 48) else None)"

fun parse_digits :: "string \<Rightarrow> bool \<Rightarrow> nat \<Rightarrow> nat option" where
  "parse_digits [] prev acc = (if prev then Some acc else None)"
| "parse_digits (c # cs) prev acc =
     (if c = CHR ''_'' then (if prev then parse_digits cs False acc else None)
      else (case digit_val c of
              None \<Rightarrow> None
            | Some d \<Rightarrow> parse_digits cs True (acc * 10 + d)))"

definition strip :: "string \<Rightarrow> string" where
  "strip s = rev (dropWhile is_space (rev (dropWhile is_space s)))"

definition max_str_digits :: nat where
  "max_str_digits = 4300"

definition digit_count :: "string \<Rightarrow> nat" where
  "digit_count s = length (filter (\<lambda>c. digit_val c \<noteq> None) s)"

definition py_int :: "string \<Rightarrow> int option" where
  "py_int s =
     (case strip s of
        [] \<Rightarrow> None
      | c # cs \<Rightarrow>
          (let body = (if c = CHR ''-'' \<or> c = CHR ''+'' then cs else c # cs)
           in case parse_digits body False 0 of
                None \<Rightarrow> None
              | Some n \<Rightarrow>
                  if max_str_digits < digit_count body then None
                  else Some (if c = CHR ''-'' then - int n else int n)))"

subsection \<open>Celery results and responses\<close>

text \<open>
  A Celery result is an \<^verbatim>\<open>AsyncResult(id, parent)\<close> or a
  \<^verbatim>\<open>GroupResult(id, results, parent)\<close>; \<^verbatim>\<open>as_tuple()\<close> writes it as
  \<^verbatim>\<open>((id, parent), nodes)\<close>, with \<^verbatim>\<open>nodes = None\<close> for an
  \<^verbatim>\<open>AsyncResult\<close>.
\<close>

datatype result = AsyncResult string "result option"
  | GroupResult string "result list" "result option"

datatype rtuple = RTuple string "rtuple option" "rtuple list option"

text \<open>A node of the status tree, with the fields of \<^verbatim>\<open>TaskStatusModel\<close>: name, args,
  status, id, children, parent.\<close>

datatype status_tree =
  StatusTree string string string string "status_tree list" "status_tree option"

datatype body =
    Text string
  | TaskIdJson string string
  | StatusJson status_tree
  | CsvText "string list"

datatype response = Response body nat

section \<open>The object store: \<^verbatim>\<open>io_tools\<close>\<close>

text \<open>
  Modelled from the spec: the MinIO client (\<^verbatim>\<open>backend/clients/minio.py\<close> and the
  \<^verbatim>\<open>minio\<close> library, neither among the sources) is the spec's object store, an
  external collaborator with existence checks, listing and reading. Its state is the
  buckets, each with its objects in listing order, an object being a name and the data
  rows of its CSV content; \<^verbatim>\<open>stat_object\<close> raises \<^verbatim>\<open>NoSuchKey\<close> for an object
  that the bucket does not hold.
\<close>

type_synonym minio = "(string \<times> (string \<times> string list) list) list"

definition minio_bucket_exists :: "minio \<Rightarrow> string \<Rightarrow> bool" where
  "minio_bucket_exists m b = (case map_of m b of None \<Rightarrow> False | Some os \<Rightarrow> True)"

definition minio_list_objects :: "minio \<Rightarrow> string \<Rightarrow> py_error + string list" where
  "minio_list_objects m b =
     (case map_of m b of None \<Rightarrow> Inl NoSuchBucket | Some os \<Rightarrow> Inr (map fst os))"

definition minio_stat_object :: "minio \<Rightarrow> py_value \<Rightarrow> py_value \<Rightarrow> py_error + unit" where
  "minio_stat_object m b p =
     (case b of
        ModuleGlobal g \<Rightarrow> Inl TypeError
      | Str bn \<Rightarrow>
          (case p of
             ModuleGlobal g \<Rightarrow> Inl TypeError
           | Str pn \<Rightarrow>
               (case map_of m bn of
                  None \<Rightarrow> Inl NoSuchBucket
                | Some os \<Rightarrow> if pn \<in> set (map fst os) then Inr () else Inl NoSuchKey)))"

text \<open>
  The names bound at module level in \<^verbatim>\<open>io_tools.py\<close> (its imports and its
  functions). A name in a function body is looked up in the function's local variables,
  then among these, then among the builtins, where \<^verbatim>\<open>path\<close> is not; a name found
  nowhere raises \<^verbatim>\<open>NameError\<close>.
\<close>

definition io_tools_globals :: "string list" where
  "io_tools_globals =
     [''dd'', ''pd'', ''StringIO'', ''NoSuchKey'', ''minio'', ''dask'', ''table_exists'',
      ''get_tables'', ''bucket_exists'', ''get_df'', ''get_ddf'', ''get_unique_values'']"

definition load_name :: "(string \<times> string) list \<Rightarrow> string \<Rightarrow> py_error + py_value" where
  "load_name locals n =
     (case map_of locals n of
        Some v \<Rightarrow> Inr (Str v)
      | None \<Rightarrow> if n \<in> set io_tools_globals then Inr (ModuleGlobal n) else Inl (NameError n))"

text \<open>
  \<^verbatim>\<open>
  def table_exists(bucket, table_path):
      try:
          minio.minio_client.stat_object(bucket, path)
          return True
      except NoSuchKey:
          return False
  \<close>
  The arguments are evaluated before the call is made, \<^verbatim>\<open>bucket\<close> then \<^verbatim>\<open>path\<close>;
  only \<^verbatim>\<open>NoSuchKey\<close> is caught.
\<close>

definition table_exists :: "minio \<Rightarrow> string \<Rightarrow> string \<Rightarrow> py_error + bool" where
  "table_exists m bucket table_path =
     (let locals = [(''bucket'', bucket), (''table_path'', table_path)] in
      case load_name locals ''bucket'' of
        Inl e \<Rightarrow> Inl e
      | Inr b \<Rightarrow>
          (case load_name locals ''path'' of
             Inl e \<Rightarrow> Inl e
           | Inr p \<Rightarrow>
               (case minio_stat_object m b p of
                  Inl e \<Rightarrow> if e = NoSuchKey then Inr False else Inl e
                | Inr u \<Rightarrow> Inr True)))"

definition get_tables :: "minio \<Rightarrow> string \<Rightarrow> py_error + string list" where
  "get_tables m bucket = minio_list_objects m bucket"

definition bucket_exists :: "minio \<Rightarrow> string \<Rightarrow> bool" where
  "bucket_exists m bucket = minio_bucket_exists m bucket"

text \<open>
  \<^verbatim>\<open>get_ddf(bucket, path)\<close> reads \<^verbatim>\<open>s3://bucket/path\<close> as a data frame, here
  its data rows; \<^verbatim>\<open>head(n)\<close> keeps the first \<open>n\<close> rows, and all but the last
  \<open>-n\<close> for a negative \<open>n\<close>.
\<close>

definition get_ddf :: "minio \<Rightarrow> string \<Rightarrow> string \<Rightarrow> py_error + string list" where
  "get_ddf m bucket path =
     (case map_of m bucket of
        None \<Rightarrow> Inl FileNotFoundError
      | Some os \<Rightarrow> (case map_of os path of None \<Rightarrow> Inl FileNotFoundError | Some rows \<Rightarrow> Inr rows))"

definition head :: "string list \<Rightarrow> int \<Rightarrow> string list" where
  "head rows n = (if 0 \<le> n then take (nat n) rows else take (length rows - nat (- n)) rows)"

section \<open>The execution backend: Celery\<close>

text \<open>
  Modelled from the spec: Celery is a library and the tasks \<^verbatim>\<open>add_table\<close>,
  \<^verbatim>\<open>profile_valentine_all\<close> and \<^verbatim>\<open>profile_valentine_star\<close> are defined in
  \<^verbatim>\<open>backend/utility/celery_tasks.py\<close>; neither is among the sources. The model is the
  spec's Execution Backend: \<^verbatim>\<open>submit\<close>, \<^verbatim>\<open>submitGroup\<close> and \<^verbatim>\<open>submitJoin\<close>
  return an identifier at once and run nothing, a chain is a parent-to-child path, and a
  fan-out/fan-in is a group of leaves joined by one finalize task. A signature is a task
  name with its arguments; \<^verbatim>\<open>task.s(...)\<close> builds a mutable one and
  \<^verbatim>\<open>task.si(...)\<close> an immutable one. When a task runs after others, the results of
  those are put before its own arguments unless its signature is immutable. A chord is
  applied in the same way for every header, also an empty one.
\<close>

record signature =
  task :: string
  sig_args :: "string list"
  immutable :: bool

definition sig_s :: "string \<Rightarrow> string list \<Rightarrow> signature" where
  "sig_s t a = \<lparr>task = t, sig_args = a, immutable = False\<rparr>"

definition sig_si :: "string \<Rightarrow> string list \<Rightarrow> signature" where
  "sig_si t a = \<lparr>task = t, sig_args = a, immutable = True\<rparr>"

definition call_args :: "signature \<Rightarrow> string list \<Rightarrow> string list" where
  "call_args sg prev = (if immutable sg then sig_args sg else prev @ sig_args sg)"

text \<open>
  What the broker has been sent: a task under its identifier, a task to run after
  another one, a group of tasks, and a task to run once a group has completed.
\<close>

datatype submission =
    Submit string signature
  | SubmitAfter string signature string
  | SubmitGroup string "string list"
  | SubmitJoin string signature string

text \<open>
  The state of the Celery application: \<open>uuid n\<close> is the identifier that the
  \<open>n\<close>-th call of \<^verbatim>\<open>uuid()\<close> returns, \<open>issued\<close> counts the calls made so far,
  \<open>sent\<close> is what has been submitted, \<open>saved_groups\<close> the group results saved in
  the result backend.
\<close>

record celery =
  uuid :: "nat \<Rightarrow> string"
  issued :: nat
  sent :: "submission list"
  saved_groups :: "result list"

fun freeze_all :: "signature list \<Rightarrow> celery \<Rightarrow> (string \<times> signature) list \<times> celery" where
  "freeze_all [] c = ([], c)"
| "freeze_all (sg # sgs) c =
     (let i = uuid c (issued c);
          (rest, c') = freeze_all sgs (c\<lparr>issued := Suc (issued c)\<rparr>)
      in ((i, sg) # rest, c'))"

text \<open>\<^verbatim>\<open>chord(group(*header))(body)\<close>: every header task, the group and the body get
  an identifier; the result is the body's, with the group result as its parent.\<close>

definition apply_chord :: "signature list \<Rightarrow> signature \<Rightarrow> celery \<Rightarrow> result \<times> celery" where
  "apply_chord header body c =
     (let (frozen, c1) = freeze_all header c;
          gid = uuid c1 (issued c1);
          bid = uuid c1 (Suc (issued c1));
          c2 = c1\<lparr>issued := Suc (Suc (issued c1)),
                  sent := sent c1 @ map (\<lambda>(i, sg). Submit i sg) frozen
                          @ [SubmitGroup gid (map fst frozen), SubmitJoin bid body gid]\<rparr>
      in (AsyncResult bid (Some (GroupResult gid (map (\<lambda>(i, sg). AsyncResult i None) frozen) None)),
          c2))"

text \<open>\<^verbatim>\<open>(a | b).apply_async()\<close>: the result is that of the last task, with the first
  one's as its parent.\<close>

definition apply_chain :: "signature \<Rightarrow> signature \<Rightarrow> celery \<Rightarrow> result \<times> celery" where
  "apply_chain a b c =
     (let aid = uuid c (issued c);
          bid = uuid c (Suc (issued c));
          c1 = c\<lparr>issued := Suc (Suc (issued c)),
                 sent := sent c @ [Submit aid a, SubmitAfter bid b aid]\<rparr>
      in (AsyncResult bid (Some (AsyncResult aid None)), c1))"

text \<open>\<^verbatim>\<open>task.delay(*args)\<close>.\<close>

definition delay :: "string \<Rightarrow> string list \<Rightarrow> celery \<Rightarrow> result \<times> celery" where
  "delay t a c =
     (let i = uuid c (issued c);
          c1 = c\<lparr>issued := Suc (issued c), sent := sent c @ [Submit i (sig_s t a)]\<rparr>
      in (AsyncResult i None, c1))"

fun result_id :: "result \<Rightarrow> string" where
  "result_id (AsyncResult i p) = i"
| "result_id (GroupResult i rs p) = i"

fun result_parent :: "result \<Rightarrow> result option" where
  "result_parent (AsyncResult i p) = p"
| "result_parent (GroupResult i rs p) = p"

text \<open>\<^verbatim>\<open>result.parent.save()\<close>: only a \<^verbatim>\<open>GroupResult\<close> has a \<^verbatim>\<open>save\<close> method.\<close>

definition save_parent :: "result \<Rightarrow> celery \<Rightarrow> py_error + celery" where
  "save_parent r c =
     (case result_parent r of
        None \<Rightarrow> Inl (AttributeError ''save'')
      | Some (AsyncResult i p) \<Rightarrow> Inl (AttributeError ''save'')
      | Some (GroupResult i rs p) \<Rightarrow>
          Inr (c\<lparr>saved_groups := saved_groups c @ [GroupResult i rs p]\<rparr>))"

primrec as_tuple :: "result \<Rightarrow> rtuple" where
  "as_tuple (AsyncResult i p) = RTuple i (map_option as_tuple p) None"
| "as_tuple (GroupResult i rs p) = RTuple i (map_option as_tuple p) (Some (map as_tuple rs))"

primrec result_of_tuple :: "rtuple \<Rightarrow> result" where
  "result_of_tuple (RTuple i p nodes) =
     (case map_option (map result_of_tuple) nodes of
        None \<Rightarrow> AsyncResult i (map_option result_of_tuple p)
      | Some rs \<Rightarrow> GroupResult i rs (map_option result_of_tuple p))"

text \<open>\<^verbatim>\<open>result_from_tuple\<close> builds a result object for every tuple; it has no path
  that returns \<^verbatim>\<open>None\<close>.\<close>

definition result_from_tuple :: "rtuple \<Rightarrow> result option" where
  "result_from_tuple t = Some (result_of_tuple t)"

section \<open>The metadata and topology store: \<^verbatim>\<open>redis_tools\<close>\<close>

text \<open>
  \<^verbatim>\<open>app.py\<close> binds the module to the name \<^verbatim>\<open>db\<close> and calls five of its members.
  A module is the set of names its statements bind: a member is either bound to a function
  over the store's state \<open>'s\<close> or not bound at all, and calling a member that is not
  bound raises \<^verbatim>\<open>AttributeError\<close>.
\<close>

record table_meta =
  tm_name :: string
  tm_path :: string
  tm_bucket :: string
  tm_column_count :: nat
  tm_nodes :: "(string \<times> string) list"

record 's store_module =
  db_table_exists :: "('s \<Rightarrow> string \<Rightarrow> bool) option"
  db_get_table :: "('s \<Rightarrow> string \<Rightarrow> table_meta option) option"
  db_get_celery_task :: "('s \<Rightarrow> string \<Rightarrow> rtuple option) option"
  db_save_celery_task :: "('s \<Rightarrow> string \<Rightarrow> rtuple \<Rightarrow> 's) option"
  db_purge :: "('s \<Rightarrow> 's) option"

text \<open>
  The module as \<^verbatim>\<open>redis_tools.py\<close> is written. Its only \<^verbatim>\<open>def\<close> is
  \<^verbatim>\<open>add_table\<close>, which no handler calls; \<^verbatim>\<open>save_celery_task\<close>,
  \<^verbatim>\<open>get_celery_task\<close>, \<^verbatim>\<open>get_table\<close>, \<^verbatim>\<open>table_exists\<close> and \<^verbatim>\<open>purge\<close> are
  commented out, and no import binds these names. (Line 6 of the file,
  \<^verbatim>\<open>from redis import\<close>, is not a complete statement, so the interpreter rejects the
  file before it binds any name at all; the binding below is what the file's statements
  would bind with that line completed.)
\<close>

definition redis_tools :: "'s store_module" where
  "redis_tools =
     \<lparr>db_table_exists = None, db_get_table = None, db_get_celery_task = None,
      db_save_celery_task = None, db_purge = None\<rparr>"

text \<open>
  Modelled from the spec: the five store operations that \<^verbatim>\<open>redis_tools.py\<close> keeps only
  as comments (lines 42 to 54 and 86 to 115), which are the spec's Unit Metadata Store
  and Topology Store APIs (\<^verbatim>\<open>isProcessed\<close>, \<^verbatim>\<open>getMetadata\<close>, \<^verbatim>\<open>persist\<close>,
  \<^verbatim>\<open>load\<close>, \<^verbatim>\<open>purgeAll\<close>). The state is the two collections the comments use:
  \<^verbatim>\<open>insert_one\<close> appends a document, \<^verbatim>\<open>find_one\<close> returns the first match,
  \<^verbatim>\<open>drop\<close> empties a collection; \<^verbatim>\<open>literal_eval(str(t))\<close> gives back the tuple
  \<open>t\<close>.
\<close>

record mongo =
  table_metadata :: "table_meta list"
  celery_tasks :: "(string \<times> rtuple) list"

definition save_celery_task :: "mongo \<Rightarrow> string \<Rightarrow> rtuple \<Rightarrow> mongo" where
  "save_celery_task m task_id task_tuple =
     m\<lparr>celery_tasks := celery_tasks m @ [(task_id, task_tuple)]\<rparr>"

definition get_celery_task :: "mongo \<Rightarrow> string \<Rightarrow> rtuple option" where
  "get_celery_task m task_id = map_of (celery_tasks m) task_id"

definition get_table :: "mongo \<Rightarrow> string \<Rightarrow> table_meta option" where
  "get_table m table_path = find (\<lambda>t. tm_path t = table_path) (table_metadata m)"

definition table_exists_db :: "mongo \<Rightarrow> string \<Rightarrow> bool" where
  "table_exists_db m table_path = (get_table m table_path \<noteq> None)"

definition purge :: "mongo \<Rightarrow> mongo" where
  "purge m = m\<lparr>table_metadata := [], celery_tasks := []\<rparr>"

definition mongo_tools :: "mongo store_module" where
  "mongo_tools =
     \<lparr>db_table_exists = Some table_exists_db, db_get_table = Some get_table,
      db_get_celery_task = Some get_celery_task,
      db_save_celery_task = Some save_celery_task, db_purge = Some purge\<rparr>"

section \<open>Status reconstruction\<close>

text \<open>
  What the execution backend reports for a node at query time: the task's name, its
  serialized arguments and its state. The query for a node can fail transiently.
\<close>

record node_meta =
  meta_name :: string
  meta_args :: string
  meta_state :: string

fun collect :: "(py_error + 'a) list \<Rightarrow> py_error + 'a list" where
  "collect [] = Inr []"
| "collect (x # xs) =
     (case x of
        Inl e \<Rightarrow> Inl e
      | Inr v \<Rightarrow> (case collect xs of Inl e \<Rightarrow> Inl e | Inr vs \<Rightarrow> Inr (v # vs)))"

fun collect_opt :: "(py_error + 'a) option \<Rightarrow> py_error + 'a option" where
  "collect_opt None = Inr None"
| "collect_opt (Some x) = (case x of Inl e \<Rightarrow> Inl e | Inr v \<Rightarrow> Inr (Some v))"

text \<open>
  Modelled from the spec: \<^verbatim>\<open>generate_status_tree\<close> of
  \<^verbatim>\<open>backend/utility/celery_utils.py\<close>, which is not among the sources. It is the
  spec's Status Reconstructor: a depth-first traversal of the loaded result that queries
  the execution backend for every node by its identifier and composes a node with the
  name, the argument snapshot, the state, the identifier, the reconstructed children in
  the persisted order and the reconstructed parent; a query that fails makes the whole
  reconstruction fail with \<^verbatim>\<open>BackendUnavailable\<close>.
\<close>

primrec generate_status_tree :: "result \<Rightarrow> (string \<Rightarrow> node_meta option) \<Rightarrow> py_error + status_tree"
  where
  "generate_status_tree (AsyncResult i p) q =
     (case q i of
        None \<Rightarrow> Inl BackendUnavailable
      | Some m \<Rightarrow>
          (case collect_opt (map_option (\<lambda>r. generate_status_tree r q) p) of
             Inl e \<Rightarrow> Inl e
           | Inr parent \<Rightarrow>
               Inr (StatusTree (meta_name m) (meta_args m) (meta_state m) i [] parent)))"
| "generate_status_tree (GroupResult i rs p) q =
     (case q i of
        None \<Rightarrow> Inl BackendUnavailable
      | Some m \<Rightarrow>
          (case collect (map (\<lambda>r. generate_status_tree r q) rs) of
             Inl e \<Rightarrow> Inl e
           | Inr children \<Rightarrow>
               (case collect_opt (map_option (\<lambda>r. generate_status_tree r q) p) of
                  Inl e \<Rightarrow> Inl e
                | Inr parent \<Rightarrow>
                    Inr (StatusTree (meta_name m) (meta_args m) (meta_state m) i
                           children parent))))"

text \<open>The identifiers of all the nodes of a result.\<close>

primrec result_ids :: "result \<Rightarrow> string list" where
  "result_ids (AsyncResult i p) = i # (case map_option result_ids p of None \<Rightarrow> [] | Some is \<Rightarrow> is)"
| "result_ids (GroupResult i rs p) =
     i # concat (map result_ids rs) @ (case map_option result_ids p of None \<Rightarrow> [] | Some is \<Rightarrow> is)"

section \<open>The state of the collaborators\<close>

record 's world =
  objects :: minio
  store :: 's
  broker :: celery
  live :: "string \<Rightarrow> node_meta option"
  graph :: "string list"

type_synonym 's outcome = "(py_error + response) \<times> 's world"

section \<open>The handlers of \<^verbatim>\<open>app.py\<close>\<close>

text \<open>
  \<^verbatim>\<open>app.py\<close> takes the names \<^verbatim>\<open>search\<close>, \<^verbatim>\<open>discovery\<close>, \<^verbatim>\<open>logging\<close> and the
  tasks from \<^verbatim>\<open>from backend.utility.celery_tasks import *\<close>; they are taken as bound,
  \<^verbatim>\<open>search.io_tools\<close> to the module of the previous section. Every handler takes the
  store module \<^verbatim>\<open>db\<close> as its first argument. Logging is not modelled. Reading the store
  does not change it and does not fail.
\<close>

subsection \<open>\<^verbatim>\<open>/ingest-data\<close>\<close>

text \<open>
  Lines 50 to 56, the loop over the bucket's table paths:
  \<^verbatim>\<open>
  header = []
  for table_path in paths:
      if not db.table_exists(table_path):
          header.append(add_table.s(bucket, table_path))
  \<close>
\<close>

fun ingest_header ::
  "'s store_module \<Rightarrow> 's \<Rightarrow> string \<Rightarrow> string list \<Rightarrow> signature list \<Rightarrow> py_error + signature list"
  where
  "ingest_header db s bucket [] header = Inr header"
| "ingest_header db s bucket (table_path # paths) header =
     (case db_table_exists db of
        None \<Rightarrow> Inl (AttributeError ''table_exists'')
      | Some exists \<Rightarrow>
          if \<not> exists s table_path
          then ingest_header db s bucket paths (header @ [sig_s ''add_table'' [bucket, table_path]])
          else ingest_header db s bucket paths header)"

text \<open>
  Lines 57 to 63:
  \<^verbatim>\<open>
  task_group = group(*header)
  profiling_chord = chord(task_group)(profile_valentine_all.si(bucket))
  profiling_chord.parent.save()
  db.save_celery_task(profiling_chord.id, profiling_chord.as_tuple())
  return Response(json.dumps({"task_id": profiling_chord.id, "type": "Ingestion"}), ..., status=202)
  \<close>
\<close>

definition ingest_submit :: "'s store_module \<Rightarrow> 's world \<Rightarrow> string \<Rightarrow> signature list \<Rightarrow> 's outcome"
  where
  "ingest_submit db w bucket header =
     (let (profiling_chord, c1) =
            apply_chord header (sig_si ''profile_valentine_all'' [bucket]) (broker w)
      in case save_parent profiling_chord c1 of
           Inl e \<Rightarrow> (Inl e, w\<lparr>broker := c1\<rparr>)
         | Inr c2 \<Rightarrow>
             (case db_save_celery_task db of
                None \<Rightarrow> (Inl (AttributeError ''save_celery_task''), w\<lparr>broker := c2\<rparr>)
              | Some save \<Rightarrow>
                  (Inr (Response (TaskIdJson (result_id profiling_chord) ''Ingestion'') 202),
                   w\<lparr>broker := c2,
                     store := save (store w) (result_id profiling_chord)
                                (as_tuple profiling_chord)\<rparr>)))"

definition IngestData_get :: "'s store_module \<Rightarrow> 's world \<Rightarrow> query_args \<Rightarrow> 's outcome" where
  "IngestData_get db w a =
     (case args_get a ''bucket'' of
        None \<Rightarrow> (Inr (Response (Text ''Missing bucket query parameter'') 400), w)
      | Some bucket \<Rightarrow>
          if bucket = [] then (Inr (Response (Text ''Missing bucket query parameter'') 400), w)
          else if \<not> bucket_exists (objects w) bucket
          then (Inr (Response (Text ''Bucket does not exist'') 404), w)
          else (case get_tables (objects w) bucket of
                  Inl e \<Rightarrow> (Inl e, w)
                | Inr paths \<Rightarrow>
                    if length paths = 0 then (Inr (Response (Text ''Bucket is empty'') 204), w)
                    else (case ingest_header db (store w) bucket paths [] of
                            Inl e \<Rightarrow> (Inl e, w)
                          | Inr header \<Rightarrow> ingest_submit db w bucket header)))"

subsection \<open>\<^verbatim>\<open>/task-status\<close>\<close>

definition TaskStatus_get :: "'s store_module \<Rightarrow> 's world \<Rightarrow> query_args \<Rightarrow> 's outcome" where
  "TaskStatus_get db w a =
     (case args_get a ''task_id'' of
        None \<Rightarrow> (Inr (Response (Text ''Missing task id query parameter'') 400), w)
      | Some task_id \<Rightarrow>
          if task_id = [] then (Inr (Response (Text ''Missing task id query parameter'') 400), w)
          else (case db_get_celery_task db of
                  None \<Rightarrow> (Inl (AttributeError ''get_celery_task''), w)
                | Some load \<Rightarrow>
                    (case load (store w) task_id of
                       None \<Rightarrow> (Inr (Response (Text ''Task does not exist'') 404), w)
                     | Some result_tuple \<Rightarrow>
                         (case result_from_tuple result_tuple of
                            None \<Rightarrow>
                              (Inr (Response (Text ''Task could not be loaded from backend'') 500), w)
                          | Some result \<Rightarrow>
                              (case generate_status_tree result (live w) of
                                 Inl e \<Rightarrow> (Inl e, w)
                               | Inr tree \<Rightarrow> (Inr (Response (StatusJson tree) 200), w))))))"

subsection \<open>\<^verbatim>\<open>/purge\<close>\<close>

definition Purge_get :: "'s store_module \<Rightarrow> 's world \<Rightarrow> 's outcome" where
  "Purge_get db w =
     (case db_purge db of
        None \<Rightarrow> (Inl (AttributeError ''purge''), w)
      | Some drop_all \<Rightarrow>
          (Inr (Response (Text ''Success'') 200), w\<lparr>store := drop_all (store w), graph := []\<rparr>))"

subsection \<open>\<^verbatim>\<open>/profile-valentine\<close>\<close>

text \<open>
  Lines 190 to 194:
  \<^verbatim>\<open>
  task = profile_valentine_star.delay(bucket, table_path)
  db.save_celery_task(task.id, task.as_tuple())
  return Response(json.dumps({"task_id": task.id, "type": "Valentine Profiling"}), ..., status=202)
  \<close>
\<close>

definition star_submit :: "'s store_module \<Rightarrow> 's world \<Rightarrow> string \<Rightarrow> string \<Rightarrow> 's outcome" where
  "star_submit db w bucket table_path =
     (let (task, c1) = delay ''profile_valentine_star'' [bucket, table_path] (broker w)
      in case db_save_celery_task db of
           None \<Rightarrow> (Inl (AttributeError ''save_celery_task''), w\<lparr>broker := c1\<rparr>)
         | Some save \<Rightarrow>
             (Inr (Response (TaskIdJson (result_id task) ''Valentine Profiling'') 202),
              w\<lparr>broker := c1, store := save (store w) (result_id task) (as_tuple task)\<rparr>))"

text \<open>Lines 187 to 194: the check that the table has been ingested, then the submission.\<close>

definition ProfileValentine_after_guards ::
  "'s store_module \<Rightarrow> 's world \<Rightarrow> string \<Rightarrow> string \<Rightarrow> 's outcome" where
  "ProfileValentine_after_guards db w bucket table_path =
     (case db_table_exists db of
        None \<Rightarrow> (Inl (AttributeError ''table_exists''), w)
      | Some exists \<Rightarrow>
          if \<not> exists (store w) table_path
          then (Inr (Response (Text ''Table has not been ingested yet'') 403), w)
          else star_submit db w bucket table_path)"

definition ProfileValentine_get :: "'s store_module \<Rightarrow> 's world \<Rightarrow> query_args \<Rightarrow> 's outcome"
  where
  "ProfileValentine_get db w a =
     (let missing = (Inr (Response (Text ''Missing table path or bucket query parameters'') 400), w)
      in case args_get a ''bucket'' of
           None \<Rightarrow> missing
         | Some bucket \<Rightarrow>
             (case args_get a ''table_path'' of
                None \<Rightarrow> missing
              | Some table_path \<Rightarrow>
                  if bucket = [] \<or> table_path = [] then missing
                  else if \<not> bucket_exists (objects w) bucket
                  then (Inr (Response (Text ''Bucket does not exist'') 404), w)
                  else (case table_exists (objects w) bucket table_path of
                          Inl e \<Rightarrow> (Inl e, w)
                        | Inr found \<Rightarrow>
                            if \<not> found then (Inr (Response (Text ''Table does not exist'') 404), w)
                            else ProfileValentine_after_guards db w bucket table_path)))"

subsection \<open>\<^verbatim>\<open>/add-table\<close>\<close>

text \<open>
  Lines 224 to 228:
  \<^verbatim>\<open>
  task = (add_table.si(bucket, table_path) | profile_valentine_star.si(bucket, table_path)).apply_async()
  db.save_celery_task(task.id, task.as_tuple())
  return Response(json.dumps({"task_id": task.id, "type": "Single Ingestion"}), ..., status=202)
  \<close>
\<close>

definition chain_submit :: "'s store_module \<Rightarrow> 's world \<Rightarrow> string \<Rightarrow> string \<Rightarrow> 's outcome" where
  "chain_submit db w bucket table_path =
     (let (task, c1) = apply_chain (sig_si ''add_table'' [bucket, table_path])
                         (sig_si ''profile_valentine_star'' [bucket, table_path]) (broker w)
      in case db_save_celery_task db of
           None \<Rightarrow> (Inl (AttributeError ''save_celery_task''), w\<lparr>broker := c1\<rparr>)
         | Some save \<Rightarrow>
             (Inr (Response (TaskIdJson (result_id task) ''Single Ingestion'') 202),
              w\<lparr>broker := c1, store := save (store w) (result_id task) (as_tuple task)\<rparr>))"

text \<open>Lines 221 to 228: the check that the table was not processed yet, then the
  submission.\<close>

definition AddTable_after_guards ::
  "'s store_module \<Rightarrow> 's world \<Rightarrow> string \<Rightarrow> string \<Rightarrow> 's outcome" where
  "AddTable_after_guards db w bucket table_path =
     (case db_get_table db of
        None \<Rightarrow> (Inl (AttributeError ''get_table''), w)
      | Some lookup \<Rightarrow>
          (case lookup (store w) table_path of
             Some t \<Rightarrow> (Inr (Response (Text ''Table was already processed'') 204), w)
           | None \<Rightarrow> chain_submit db w bucket table_path))"

definition AddTable_get :: "'s store_module \<Rightarrow> 's world \<Rightarrow> query_args \<Rightarrow> 's outcome" where
  "AddTable_get db w a =
     (let missing = (Inr (Response (Text ''Missing table path or bucket query parameters'') 400), w)
      in case args_get a ''bucket'' of
           None \<Rightarrow> missing
         | Some bucket \<Rightarrow>
             (case args_get a ''table_path'' of
                None \<Rightarrow> missing
              | Some table_path \<Rightarrow>
                  if bucket = [] \<or> table_path = [] then missing
                  else if \<not> bucket_exists (objects w) bucket
                  then (Inr (Response (Text ''Bucket does not exist'') 404), w)
                  else (case table_exists (objects w) bucket table_path of
                          Inl e \<Rightarrow> (Inl e, w)
                        | Inr found \<Rightarrow>
                            if \<not> found then (Inr (Response (Text ''Table does not exist'') 404), w)
                            else AddTable_after_guards db w bucket table_path)))"

subsection \<open>\<^verbatim>\<open>/get-table-csv\<close>\<close>

text \<open>
  \<^verbatim>\<open>rows = request.args.get('rows', type=int)\<close>: the handler with the conversion as an
  argument, and the handler of \<^verbatim>\<open>app.py\<close>, where the conversion is \<^verbatim>\<open>int\<close>.
\<close>

definition GetTableCSV_get_with ::
  "(string \<Rightarrow> int option) \<Rightarrow> 's world \<Rightarrow> query_args \<Rightarrow> 's outcome" where
  "GetTableCSV_get_with conv w a =
     (let missing =
            (Inr (Response (Text ''Missing table path, rows or bucket query parameters'') 400), w)
      in case args_get a ''bucket'' of
           None \<Rightarrow> missing
         | Some bucket \<Rightarrow>
             (case args_get a ''table_path'' of
                None \<Rightarrow> missing
              | Some table_path \<Rightarrow>
                  (case args_get_typed conv a ''rows'' of
                     None \<Rightarrow> missing
                   | Some rows \<Rightarrow>
                       if bucket = [] \<or> table_path = [] \<or> rows = 0 then missing
                       else if \<not> bucket_exists (objects w) bucket
                       then (Inr (Response (Text ''Bucket does not exist'') 404), w)
                       else (case table_exists (objects w) bucket table_path of
                               Inl e \<Rightarrow> (Inl e, w)
                             | Inr found \<Rightarrow>
                                 if \<not> found
                                 then (Inr (Response (Text ''Table does not exist'') 404), w)
                                 else (case get_ddf (objects w) bucket table_path of
                                         Inl e \<Rightarrow> (Inl e, w)
                                       | Inr ddf \<Rightarrow>
                                           (Inr (Response (CsvText (head ddf rows)) 200), w))))))"

definition GetTableCSV_get :: "'s world \<Rightarrow> query_args \<Rightarrow> 's outcome" where
  "GetTableCSV_get w a = GetTableCSV_get_with py_int w a"

section \<open>Scenarios\<close>

text \<open>
  The states used to run the handlers on concrete requests: a bucket \<^verbatim>\<open>data\<close> with
  the tables \<^verbatim>\<open>A\<close> and \<^verbatim>\<open>B\<close>, a Celery application that has issued no identifier
  yet, and a backend that knows no node.
\<close>

definition uuid0 :: "nat \<Rightarrow> string" where
  "uuid0 n = ''job-'' @ replicate n (CHR ''i'')"

definition celery0 :: celery where
  "celery0 = \<lparr>uuid = uuid0, issued = 0, sent = [], saved_groups = []\<rparr>"

definition bucket_AB :: minio where
  "bucket_AB = [(''data'', [(''A'', [''1,2'', ''3,4'']), (''B'', [''5,6''])])]"

definition world0 :: "'s \<Rightarrow> 's world" where
  "world0 s = \<lparr>objects = bucket_AB, store = s, broker = celery0, live = (\<lambda>i. None), graph = []\<rparr>"

definition meta_of :: "string \<Rightarrow> table_meta" where
  "meta_of p = \<lparr>tm_name = p, tm_path = p, tm_bucket = ''data'', tm_column_count = 2, tm_nodes = []\<rparr>"

definition mongo0 :: mongo where
  "mongo0 = \<lparr>table_metadata = [], celery_tasks = []\<rparr>"

definition mongo_AB :: mongo where
  "mongo_AB = \<lparr>table_metadata = [meta_of ''A'', meta_of ''B''], celery_tasks = []\<rparr>"

definition mongo_A :: mongo where
  "mongo_A = \<lparr>table_metadata = [meta_of ''A''], celery_tasks = []\<rparr>"

text \<open>A store that holds the topology of a bulk ingestion of \<^verbatim>\<open>A\<close> and \<^verbatim>\<open>B\<close>, and a
  backend whose query for the node \<^verbatim>\<open>leaf-b\<close> fails.\<close>

definition mongo_chord :: mongo where
  "mongo_chord =
     \<lparr>table_metadata = [],
      celery_tasks =
        [(''fin'',
          RTuple ''fin''
            (Some (RTuple ''grp'' None
                     (Some [RTuple ''leaf-a'' None None, RTuple ''leaf-b'' None None])))
            None)]\<rparr>"

definition live_b_down :: "string \<Rightarrow> node_meta option" where
  "live_b_down i =
     (if i = ''leaf-b'' then None
      else Some \<lparr>meta_name = ''task'', meta_args = ''[]'', meta_state = ''PENDING''\<rparr>)"

definition world_status :: "mongo world" where
  "world_status =
     \<lparr>objects = bucket_AB, store = mongo_chord, broker = celery0, live = live_b_down, graph = []\<rparr>"

section \<open>Facts about the collaborators\<close>

lemma load_name_path:
  "load_name [(''bucket'', b), (''table_path'', p)] ''path'' = Inl (NameError ''path'')"
  by (simp add: load_name_def io_tools_globals_def)

lemma load_name_bucket:
  "load_name [(''bucket'', b), (''table_path'', p)] ''bucket'' = Inr (Str b)"
  by (simp add: load_name_def)

lemma table_exists_NameError: "table_exists m bucket table_path = Inl (NameError ''path'')"
  by (simp add: table_exists_def load_name_path load_name_bucket)

lemma get_tables_of_bucket: "bucket_exists m b \<Longrightarrow> \<exists>paths. get_tables m b = Inr paths"
  by (auto simp add: bucket_exists_def minio_bucket_exists_def get_tables_def
      minio_list_objects_def split: option.splits)

lemma world0_simps:
  "objects (world0 s) = bucket_AB" "store (world0 s) = s" "broker (world0 s) = celery0"
  by (simp_all add: world0_def)

lemma data_bucket:
  "bucket_exists bucket_AB ''data''" "get_tables bucket_AB ''data'' = Inr [''A'', ''B'']"
  by (simp_all add: bucket_exists_def minio_bucket_exists_def get_tables_def
      minio_list_objects_def bucket_AB_def)

lemma call_args_immutable: "call_args (sig_si t a) prev = a"
  by (simp add: call_args_def sig_si_def)

lemma get_after_save: "get_celery_task (save_celery_task m i t) i \<noteq> None"
  by (simp add: get_celery_task_def save_celery_task_def map_of_eq_None_iff)

text \<open>A result is read back from its tuple as it was written.\<close>

lemma map_option_id_on: "(\<And>x. p = Some x \<Longrightarrow> f x = x) \<Longrightarrow> map_option f p = p"
  by (cases p) simp_all

lemma result_of_tuple_as_tuple: "result_of_tuple (as_tuple r) = r"
  by (induction r) (simp_all add: option.map_comp comp_def map_idI map_option_id_on)

subsection \<open>Identifiers and results of a submission\<close>

lemma upt_head: "[n ..< n + Suc k] = n # [Suc n ..< Suc n + k]"
  by (subst upt_rec) simp

lemma freeze_all_ids:
  "freeze_all sgs c =
     (zip (map (uuid c) [issued c ..< issued c + length sgs]) sgs,
      c\<lparr>issued := issued c + length sgs\<rparr>)"
proof (induction sgs arbitrary: c)
  case Nil
  then show ?case by simp
next
  case (Cons sg sgs)
  have "freeze_all (sg # sgs) c =
          ((uuid c (issued c), sg) # fst (freeze_all sgs (c\<lparr>issued := Suc (issued c)\<rparr>)),
           snd (freeze_all sgs (c\<lparr>issued := Suc (issued c)\<rparr>)))"
    by (simp add: Let_def case_prod_beta)
  also have "\<dots> =
      (zip (map (uuid c) (issued c # [Suc (issued c) ..< Suc (issued c) + length sgs])) (sg # sgs),
       c\<lparr>issued := issued c + length (sg # sgs)\<rparr>)"
    by (simp add: Cons.IH)
  also have "issued c # [Suc (issued c) ..< Suc (issued c) + length sgs]
             = [issued c ..< issued c + length (sg # sgs)]"
    using upt_head [of "issued c" "length sgs"] by simp
  finally show ?case .
qed

lemma map_zip_first:
  "length xs = length ys \<Longrightarrow> map (\<lambda>(i, sg). f i) (zip xs ys) = map f xs"
  by (induction xs ys rule: list_induct2) simp_all

lemma map2_Submit:
  "length xs = length ps \<Longrightarrow>
   map (\<lambda>(i, sg). Submit i sg) (zip xs (map f ps)) = map (\<lambda>(i, p). Submit i (f p)) (zip xs ps)"
  by (induction xs ps rule: list_induct2) simp_all

lemma apply_chord_result:
  "apply_chord header body c =
     (AsyncResult (uuid c (Suc (issued c + length header)))
        (Some (GroupResult (uuid c (issued c + length header))
                 (map (\<lambda>i. AsyncResult i None)
                    (map (uuid c) [issued c ..< issued c + length header]))
                 None)),
      c\<lparr>issued := Suc (Suc (issued c + length header)),
        sent := sent c
          @ map (\<lambda>(i, sg). Submit i sg)
              (zip (map (uuid c) [issued c ..< issued c + length header]) header)
          @ [SubmitGroup (uuid c (issued c + length header))
               (map (uuid c) [issued c ..< issued c + length header]),
             SubmitJoin (uuid c (Suc (issued c + length header))) body
               (uuid c (issued c + length header))]\<rparr>)"
proof -
  let ?ids = "map (uuid c) [issued c ..< issued c + length header]"
  have len: "length ?ids = length header" by simp
  have a: "map (\<lambda>(i, sg). AsyncResult i None) (zip ?ids header) = map (\<lambda>i. AsyncResult i None) ?ids"
    using len by (rule map_zip_first)
  have b: "map fst (zip ?ids header) = ?ids"
    using len by (simp only: map_fst_zip)
  show ?thesis
    unfolding apply_chord_def freeze_all_ids
    by (simp only: Let_def prod.case a b) simp
qed

text \<open>The three submissions, for a store module that binds \<^verbatim>\<open>save_celery_task\<close>.\<close>

lemma ingest_submit_bound:
  assumes "db_save_celery_task db = Some save"
  shows "ingest_submit db w bucket header =
     (Inr (Response (TaskIdJson (uuid (broker w) (Suc (issued (broker w) + length header)))
             ''Ingestion'') 202),
      w\<lparr>broker := (broker w)
           \<lparr>issued := Suc (Suc (issued (broker w) + length header)),
            sent := sent (broker w)
              @ map (\<lambda>(i, sg). Submit i sg)
                  (zip (map (uuid (broker w))
                          [issued (broker w) ..< issued (broker w) + length header]) header)
              @ [SubmitGroup (uuid (broker w) (issued (broker w) + length header))
                   (map (uuid (broker w))
                      [issued (broker w) ..< issued (broker w) + length header]),
                 SubmitJoin (uuid (broker w) (Suc (issued (broker w) + length header)))
                   (sig_si ''profile_valentine_all'' [bucket])
                   (uuid (broker w) (issued (broker w) + length header))],
            saved_groups := saved_groups (broker w)
              @ [GroupResult (uuid (broker w) (issued (broker w) + length header))
                   (map (\<lambda>i. AsyncResult i None)
                      (map (uuid (broker w))
                         [issued (broker w) ..< issued (broker w) + length header]))
                   None]\<rparr>,
        store := save (store w) (uuid (broker w) (Suc (issued (broker w) + length header)))
           (RTuple (uuid (broker w) (Suc (issued (broker w) + length header)))
              (Some (RTuple (uuid (broker w) (issued (broker w) + length header)) None
                       (Some (map (\<lambda>i. RTuple i None None)
                                (map (uuid (broker w))
                                   [issued (broker w) ..< issued (broker w) + length header])))))
              None)\<rparr>)"
  using assms
  by (simp add: ingest_submit_def apply_chord_result save_parent_def comp_def)

lemma chain_submit_bound:
  assumes "db_save_celery_task db = Some save"
  shows "chain_submit db w bucket table_path =
     (Inr (Response (TaskIdJson (uuid (broker w) (Suc (issued (broker w)))) ''Single Ingestion'')
             202),
      w\<lparr>broker := (broker w)
           \<lparr>issued := Suc (Suc (issued (broker w))),
            sent := sent (broker w)
              @ [Submit (uuid (broker w) (issued (broker w)))
                   (sig_si ''add_table'' [bucket, table_path]),
                 SubmitAfter (uuid (broker w) (Suc (issued (broker w))))
                   (sig_si ''profile_valentine_star'' [bucket, table_path])
                   (uuid (broker w) (issued (broker w)))]\<rparr>,
        store := save (store w) (uuid (broker w) (Suc (issued (broker w))))
           (RTuple (uuid (broker w) (Suc (issued (broker w))))
              (Some (RTuple (uuid (broker w) (issued (broker w))) None None)) None)\<rparr>)"
  using assms by (simp add: chain_submit_def apply_chain_def Let_def)

lemma star_submit_bound:
  assumes "db_save_celery_task db = Some save"
  shows "star_submit db w bucket table_path =
     (Inr (Response (TaskIdJson (uuid (broker w) (issued (broker w))) ''Valentine Profiling'') 202),
      w\<lparr>broker := (broker w)
           \<lparr>issued := Suc (issued (broker w)),
            sent := sent (broker w)
              @ [Submit (uuid (broker w) (issued (broker w)))
                   (sig_s ''profile_valentine_star'' [bucket, table_path])]\<rparr>,
        store := save (store w) (uuid (broker w) (issued (broker w)))
           (RTuple (uuid (broker w) (issued (broker w))) None None)\<rparr>)"
  using assms by (simp add: star_submit_def delay_def Let_def)

lemma ingest_submit_unbound:
  "fst (ingest_submit redis_tools w bucket header) = Inl (AttributeError ''save_celery_task'')"
  by (simp add: ingest_submit_def apply_chord_result save_parent_def redis_tools_def)

section \<open>The idempotency gate\<close>

text \<open>With \<^verbatim>\<open>table_exists\<close> bound, the loop of lines 50 to 56 appends one
  \<^verbatim>\<open>add_table.s(bucket, table_path)\<close> for each path that is not recorded, in the order
  of the paths, and nothing for a recorded one.\<close>

lemma ingest_header_filter:
  "db_table_exists db = Some exists \<Longrightarrow>
   ingest_header db s bucket paths header =
     Inr (header @ map (\<lambda>p. sig_s ''add_table'' [bucket, p]) (filter (\<lambda>p. \<not> exists s p) paths))"
  by (induction paths arbitrary: header) simp_all

lemma gate_zero_leaves:
  "db_table_exists db = Some exists \<Longrightarrow> exists s u \<Longrightarrow>
   ingest_header db s bucket paths [] = Inr header \<Longrightarrow>
   sig_s ''add_table'' [bucket, u] \<notin> set header"
  by (auto simp add: ingest_header_filter sig_s_def)

text \<open>With the module as written, the first iteration raises.\<close>

lemma ingest_header_unbound:
  "paths \<noteq> [] \<Longrightarrow>
   ingest_header redis_tools s bucket paths header = Inl (AttributeError ''table_exists'')"
  by (cases paths) (simp_all add: redis_tools_def)

text \<open>
  Claim C3. The claim: for every set of candidate units the gate outputs exactly the units
  not recorded as processed; a unit marked processed yields no leaf submission, and every
  unit not marked processed is submitted as a leaf. The code, on the bucket \<^verbatim>\<open>data\<close>
  with \<^verbatim>\<open>A\<close> recorded and \<^verbatim>\<open>B\<close> not: the loop raises \<^verbatim>\<open>AttributeError\<close> at
  \<^verbatim>\<open>db.table_exists\<close>, so does the request, and no leaf is submitted for \<^verbatim>\<open>B\<close>.
\<close>

theorem C3_gate_raises:
  "ingest_header redis_tools mongo_A ''data'' [''A'', ''B''] [] = Inl (AttributeError ''table_exists'')
   \<and> fst (IngestData_get redis_tools (world0 mongo_A) [(''bucket'', ''data'')])
       = Inl (AttributeError ''table_exists'')
   \<and> sent (broker (snd (IngestData_get redis_tools (world0 mongo_A) [(''bucket'', ''data'')]))) = []"
  by (simp add: IngestData_get_def args_get_def world0_simps data_bucket redis_tools_def
      celery0_def)

section \<open>Bulk ingestion\<close>

text \<open>
  With \<^verbatim>\<open>table_exists\<close> and \<^verbatim>\<open>save_celery_task\<close> bound, a request over a bucket
  that has tables submits one leaf per table that is not recorded, then the group and the
  finalize task, and stores under the finalize identifier the tuple of the finalize
  result: its parent is the group, whose nodes are the leaves in the order of the paths.
  There is no test for an empty set of leaves.
\<close>

lemma ingest_data_fan_out:
  assumes "args_get a ''bucket'' = Some bucket" and "bucket \<noteq> []"
    and "bucket_exists (objects w) bucket" and "get_tables (objects w) bucket = Inr paths"
    and "paths \<noteq> []"
    and "db_table_exists db = Some exists" and "db_save_celery_task db = Some save"
    and "units = filter (\<lambda>p. \<not> exists (store w) p) paths"
    and "leaves = map (uuid (broker w)) [issued (broker w) ..< issued (broker w) + length units]"
    and "grp = uuid (broker w) (issued (broker w) + length units)"
    and "fin = uuid (broker w) (Suc (issued (broker w) + length units))"
  shows "fst (IngestData_get db w a) = Inr (Response (TaskIdJson fin ''Ingestion'') 202)"
    and "store (snd (IngestData_get db w a)) =
           save (store w) fin
             (RTuple fin (Some (RTuple grp None (Some (map (\<lambda>i. RTuple i None None) leaves))))
                None)"
    and "sent (broker (snd (IngestData_get db w a))) =
           sent (broker w)
           @ map (\<lambda>(i, p). Submit i (sig_s ''add_table'' [bucket, p])) (zip leaves units)
           @ [SubmitGroup grp leaves, SubmitJoin fin (sig_si ''profile_valentine_all'' [bucket]) grp]"
proof -
  have hdr: "ingest_header db (store w) bucket paths [] =
               Inr (map (\<lambda>p. sig_s ''add_table'' [bucket, p]) units)"
    using ingest_header_filter [OF assms(6), of "store w" bucket paths "[]"] assms(8) by simp
  have run: "IngestData_get db w a =
               ingest_submit db w bucket (map (\<lambda>p. sig_s ''add_table'' [bucket, p]) units)"
    using assms(1-5) hdr by (simp add: IngestData_get_def)
  have len: "length leaves = length units" using assms(9) by simp
  show "fst (IngestData_get db w a) = Inr (Response (TaskIdJson fin ''Ingestion'') 202)"
    unfolding run ingest_submit_bound [OF assms(7)] using assms(11) by simp
  show "store (snd (IngestData_get db w a)) =
           save (store w) fin
             (RTuple fin (Some (RTuple grp None (Some (map (\<lambda>i. RTuple i None None) leaves))))
                None)"
    unfolding run ingest_submit_bound [OF assms(7)] using assms(9-11) by simp
  show "sent (broker (snd (IngestData_get db w a))) =
           sent (broker w)
           @ map (\<lambda>(i, p). Submit i (sig_s ''add_table'' [bucket, p])) (zip leaves units)
           @ [SubmitGroup grp leaves, SubmitJoin fin (sig_si ''profile_valentine_all'' [bucket]) grp]"
    unfolding run ingest_submit_bound [OF assms(7)] using assms(9-11) map2_Submit [OF len]
    by simp
qed

text \<open>The bucket \<^verbatim>\<open>data\<close> with \<^verbatim>\<open>A\<close> and \<^verbatim>\<open>B\<close>, neither recorded, and the store
  operations bound: the finalize task gets the bucket alone as its argument, whatever the
  leaves returned.\<close>

lemma ingest_AB_bound:
  "fst (IngestData_get mongo_tools (world0 mongo0) [(''bucket'', ''data'')])
     = Inr (Response (TaskIdJson (uuid0 3) ''Ingestion'') 202)
   \<and> celery_tasks (store (snd (IngestData_get mongo_tools (world0 mongo0) [(''bucket'', ''data'')])))
     = [(uuid0 3,
         RTuple (uuid0 3)
           (Some (RTuple (uuid0 2) None
                    (Some [RTuple (uuid0 0) None None, RTuple (uuid0 1) None None])))
           None)]
   \<and> sent (broker (snd (IngestData_get mongo_tools (world0 mongo0) [(''bucket'', ''data'')])))
     = [Submit (uuid0 0) (sig_s ''add_table'' [''data'', ''A'']),
        Submit (uuid0 1) (sig_s ''add_table'' [''data'', ''B'']),
        SubmitGroup (uuid0 2) [uuid0 0, uuid0 1],
        SubmitJoin (uuid0 3) (sig_si ''profile_valentine_all'' [''data'']) (uuid0 2)]
   \<and> call_args (sig_si ''profile_valentine_all'' [''data'']) leaf_results = [''data'']"
proof -
  let ?w = "world0 mongo0"
  let ?a = "[(''bucket'', ''data'')]"
  have units: "[''A'', ''B''] = filter (\<lambda>p. \<not> table_exists_db (store ?w) p) [''A'', ''B'']"
    by (simp add: world0_simps table_exists_db_def get_table_def mongo0_def)
  have leaves: "[uuid0 0, uuid0 1] =
      map (uuid (broker ?w)) [issued (broker ?w) ..< issued (broker ?w) + length [''A'', ''B'']]"
    by (simp add: world0_simps celery0_def upt_rec)
  have grp: "uuid0 2 = uuid (broker ?w) (issued (broker ?w) + length [''A'', ''B''])"
    by (simp add: world0_simps celery0_def numeral_2_eq_2)
  have fin: "uuid0 3 = uuid (broker ?w) (Suc (issued (broker ?w) + length [''A'', ''B'']))"
    by (simp add: world0_simps celery0_def numeral_3_eq_3)
  note fo = ingest_data_fan_out [where db=mongo_tools and w="?w" and a="?a" and bucket="''data''"
      and paths="[''A'', ''B'']" and exists=table_exists_db and save=save_celery_task
      and units="[''A'', ''B'']" and leaves="[uuid0 0, uuid0 1]" and grp="uuid0 2"
      and fin="uuid0 3", OF _ _ _ _ _ _ _ units leaves grp fin]
  have pre: "args_get ?a ''bucket'' = Some ''data''" "''data'' \<noteq> []"
    "bucket_exists (objects ?w) ''data''" "get_tables (objects ?w) ''data'' = Inr [''A'', ''B'']"
    "[''A'', ''B''] \<noteq> []" "db_table_exists mongo_tools = Some table_exists_db"
    "db_save_celery_task mongo_tools = Some save_celery_task"
    by (simp_all add: args_get_def world0_simps data_bucket mongo_tools_def)
  show ?thesis
    using fo(1) [OF pre] fo(2) [OF pre] fo(3) [OF pre]
    by (simp add: world0_simps save_celery_task_def mongo0_def celery0_def call_args_immutable)
qed

text \<open>
  Claim C1. The claim: a bulk ingestion request over a bucket with the units \<^verbatim>\<open>A\<close> and
  \<^verbatim>\<open>B\<close>, neither recorded as processed, builds a fan-out/fan-in topology, persisted
  under the finalize identifier, with the two ingest nodes as the only children of the root.
  The code, on that request: \<^verbatim>\<open>db.table_exists\<close> is not bound, the handler raises
  \<^verbatim>\<open>AttributeError\<close> on the first table and leaves the broker and the store as they
  were.
\<close>

theorem C1_two_units_raise:
  "IngestData_get redis_tools (world0 mongo0) [(''bucket'', ''data'')]
     = (Inl (AttributeError ''table_exists''), world0 mongo0)"
  by (simp add: IngestData_get_def args_get_def world0_simps data_bucket redis_tools_def)

text \<open>
  Claim C2. The claim: when every table of the bucket is already recorded as processed, no
  group and no finalize job is submitted and the caller gets a "nothing to do" signal. The
  code, on the bucket \<^verbatim>\<open>data\<close> with \<^verbatim>\<open>A\<close> and \<^verbatim>\<open>B\<close> both recorded: as written it
  raises \<^verbatim>\<open>AttributeError\<close> at \<^verbatim>\<open>db.table_exists\<close>; with the store operations bound
  it submits an empty group and the finalize job on it, and answers 202 with the finalize
  identifier.
\<close>

theorem C2_all_processed_still_submits:
  "IngestData_get redis_tools (world0 mongo_AB) [(''bucket'', ''data'')]
     = (Inl (AttributeError ''table_exists''), world0 mongo_AB)
   \<and> fst (IngestData_get mongo_tools (world0 mongo_AB) [(''bucket'', ''data'')])
     = Inr (Response (TaskIdJson (uuid0 1) ''Ingestion'') 202)
   \<and> sent (broker (snd (IngestData_get mongo_tools (world0 mongo_AB) [(''bucket'', ''data'')])))
     = [SubmitGroup (uuid0 0) [],
        SubmitJoin (uuid0 1) (sig_si ''profile_valentine_all'' [''data'']) (uuid0 0)]"
proof -
  let ?w = "world0 mongo_AB"
  let ?a = "[(''bucket'', ''data'')]"
  have shipped: "IngestData_get redis_tools ?w ?a = (Inl (AttributeError ''table_exists''), ?w)"
    by (simp add: IngestData_get_def args_get_def world0_simps data_bucket redis_tools_def)
  have units: "[] = filter (\<lambda>p. \<not> table_exists_db (store ?w) p) [''A'', ''B'']"
    by (simp add: world0_simps table_exists_db_def get_table_def mongo_AB_def meta_of_def)
  have leaves: "[] = map (uuid (broker ?w))
      [issued (broker ?w) ..< issued (broker ?w) + length ([] :: string list)]"
    by simp
  have grp: "uuid0 0 = uuid (broker ?w) (issued (broker ?w) + length ([] :: string list))"
    by (simp add: world0_simps celery0_def)
  have fin: "uuid0 1 = uuid (broker ?w) (Suc (issued (broker ?w) + length ([] :: string list)))"
    by (simp add: world0_simps celery0_def)
  note fo = ingest_data_fan_out [where db=mongo_tools and w="?w" and a="?a" and bucket="''data''"
      and paths="[''A'', ''B'']" and exists=table_exists_db and save=save_celery_task
      and units="[]" and leaves="[]" and grp="uuid0 0" and fin="uuid0 1",
      OF _ _ _ _ _ _ _ units leaves grp fin]
  have pre: "args_get ?a ''bucket'' = Some ''data''" "''data'' \<noteq> []"
    "bucket_exists (objects ?w) ''data''" "get_tables (objects ?w) ''data'' = Inr [''A'', ''B'']"
    "[''A'', ''B''] \<noteq> []" "db_table_exists mongo_tools = Some table_exists_db"
    "db_save_celery_task mongo_tools = Some save_celery_task"
    by (simp_all add: args_get_def world0_simps data_bucket mongo_tools_def)
  show ?thesis
    using shipped fo(1) [OF pre] fo(3) [OF pre]
    by (simp add: world0_simps celery0_def)
qed

section \<open>Single-table addition\<close>

text \<open>Lines 221 to 228, for a table that is not recorded and a store module that binds
  \<^verbatim>\<open>get_table\<close> and \<^verbatim>\<open>save_celery_task\<close>: a chain of two immutable signatures, each
  with the bucket and the table path as its arguments.\<close>

lemma add_table_chain:
  assumes "db_get_table db = Some lookup" and "lookup (store w) table_path = None"
    and "db_save_celery_task db = Some save"
    and "ingest = uuid (broker w) (issued (broker w))"
    and "profile = uuid (broker w) (Suc (issued (broker w)))"
  shows "fst (AddTable_after_guards db w bucket table_path)
           = Inr (Response (TaskIdJson profile ''Single Ingestion'') 202)"
    and "store (snd (AddTable_after_guards db w bucket table_path))
           = save (store w) profile (RTuple profile (Some (RTuple ingest None None)) None)"
    and "sent (broker (snd (AddTable_after_guards db w bucket table_path)))
           = sent (broker w)
             @ [Submit ingest (sig_si ''add_table'' [bucket, table_path]),
                SubmitAfter profile (sig_si ''profile_valentine_star'' [bucket, table_path]) ingest]"
    and "call_args (sig_si ''profile_valentine_star'' [bucket, table_path]) ingest_result
           = [bucket, table_path]"
  using assms
  by (simp_all add: AddTable_after_guards_def chain_submit_bound call_args_immutable)

text \<open>
  Claim C5. The claim: a single-unit submission builds and persists the two-node chain
  ingest then profile, each stage with the unit's own arguments. The code, on
  \<^verbatim>\<open>/add-table\<close> for the table \<^verbatim>\<open>A\<close> of the bucket \<^verbatim>\<open>data\<close>: the handler raises
  \<^verbatim>\<open>NameError\<close> in \<^verbatim>\<open>io_tools.table_exists\<close>, with the store module as written and
  with the store operations bound alike, and changes nothing; past that check, the module
  as written raises \<^verbatim>\<open>AttributeError\<close> at \<^verbatim>\<open>db.get_table\<close>.
\<close>

theorem C5_single_unit_raises:
  "AddTable_get redis_tools (world0 mongo0) [(''bucket'', ''data''), (''table_path'', ''A'')]
     = (Inl (NameError ''path''), world0 mongo0)
   \<and> AddTable_get mongo_tools (world0 mongo0) [(''bucket'', ''data''), (''table_path'', ''A'')]
     = (Inl (NameError ''path''), world0 mongo0)
   \<and> AddTable_after_guards redis_tools (world0 mongo0) ''data'' ''A''
     = (Inl (AttributeError ''get_table''), world0 mongo0)"
  by (simp add: AddTable_get_def AddTable_after_guards_def Let_def args_get_def world0_simps
      data_bucket table_exists_NameError redis_tools_def)

section \<open>Storing the topology before the identifier is returned\<close>


section \<open>Status queries\<close>

text \<open>With \<^verbatim>\<open>get_celery_task\<close> bound, an identifier that is not stored is answered
  "Task does not exist".\<close>

lemma status_not_found:
  "args_get a ''task_id'' = Some i \<Longrightarrow> i \<noteq> [] \<Longrightarrow> db_get_celery_task db = Some load \<Longrightarrow>
   load (store w) i = None \<Longrightarrow>
   TaskStatus_get db w a = (Inr (Response (Text ''Task does not exist'') 404), w)"
  by (simp add: TaskStatus_get_def)

text \<open>
  Claim C6. The claim: a status query with an identifier for which no topology is persisted
  returns the NotFound outcome, "Task does not exist". The code, on the identifier
  \<^verbatim>\<open>unknown\<close> and a store that holds no topology: \<^verbatim>\<open>db.get_celery_task\<close> is not
  bound and the handler raises \<^verbatim>\<open>AttributeError\<close>.
\<close>

theorem C6_unknown_id_raises:
  "TaskStatus_get redis_tools (world0 mongo0) [(''task_id'', ''unknown'')]
     = (Inl (AttributeError ''get_celery_task''), world0 mongo0)"
  by (simp add: TaskStatus_get_def args_get_def redis_tools_def)

subsection \<open>Reconstruction\<close>

lemma collect_Inl_mem: "collect xs = Inl e \<Longrightarrow> Inl e \<in> set xs"
  by (induction xs) (auto split: sum.splits)

lemma collect_isl: "x \<in> set xs \<Longrightarrow> isl x \<Longrightarrow> isl (collect xs)"
  by (induction xs) (auto split: sum.splits)

lemma collect_Inr: "\<forall>x \<in> set xs. \<not> isl x \<Longrightarrow> \<exists>vs. collect xs = Inr vs"
  by (induction xs) (auto split: sum.splits)

lemma generate_status_tree_error:
  "generate_status_tree r q = Inl e \<Longrightarrow> e = BackendUnavailable"
proof (induction r arbitrary: e)
  case (AsyncResult i p)
  then show ?case
    by (cases p) (auto split: option.splits sum.splits)
next
  case (GroupResult i rs p)
  show ?case
  proof (cases "q i")
    case None
    with GroupResult.prems show ?thesis by simp
  next
    case (Some m)
    show ?thesis
    proof (cases "collect (map (\<lambda>r. generate_status_tree r q) rs)")
      case (Inl e')
      then have "Inl e' \<in> set (map (\<lambda>r. generate_status_tree r q) rs)"
        by (rule collect_Inl_mem)
      then obtain r where "r \<in> set rs" "generate_status_tree r q = Inl e'" by auto
      then have "e' = BackendUnavailable" using GroupResult.IH(1) by blast
      with Inl Some GroupResult.prems show ?thesis by simp
    next
      case (Inr children)
      with Some GroupResult.prems GroupResult.IH(2) show ?thesis
        by (cases p) (auto split: sum.splits)
    qed
  qed
qed

lemma generate_status_tree_isl:
  "i \<in> set (result_ids r) \<Longrightarrow> q i = None \<Longrightarrow> isl (generate_status_tree r q)"
proof (induction r)
  case (AsyncResult j p)
  then show ?case
    by (cases p) (auto split: option.splits sum.splits)
next
  case (GroupResult j rs p)
  show ?case
  proof (cases "q j")
    case None
    then show ?thesis by simp
  next
    case (Some m)
    with GroupResult.prems have "j \<noteq> i" by auto
    with GroupResult.prems consider
      (child) r where "r \<in> set rs" "i \<in> set (result_ids r)"
      | (parent) r where "p = Some r" "i \<in> set (result_ids r)"
      by (cases p) auto
    then show ?thesis
    proof cases
      case child
      then have "isl (generate_status_tree r q)"
        using GroupResult.IH(1) GroupResult.prems by blast
      then have "isl (collect (map (\<lambda>r. generate_status_tree r q) rs))"
        using child(1) by (intro collect_isl [where x="generate_status_tree r q"]) auto
      then show ?thesis using Some by (auto split: sum.splits)
    next
      case parent
      then have "isl (generate_status_tree r q)"
        using GroupResult.IH(2) GroupResult.prems by auto
      then show ?thesis using Some parent by (auto split: sum.splits)
    qed
  qed
qed

lemma generate_status_tree_fails:
  "i \<in> set (result_ids r) \<Longrightarrow> q i = None \<Longrightarrow> generate_status_tree r q = Inl BackendUnavailable"
  using generate_status_tree_isl [of i r q] generate_status_tree_error [of r q]
  by (cases "generate_status_tree r q") auto

text \<open>When every node has a live state, the reconstruction returns a tree.\<close>

lemma generate_status_tree_total:
  "\<forall>i \<in> set (result_ids r). q i \<noteq> None \<Longrightarrow> \<exists>t. generate_status_tree r q = Inr t"
proof (induction r)
  case (AsyncResult j p)
  then show ?case
    by (cases p) (auto split: option.splits sum.splits)
next
  case (GroupResult j rs p)
  have "\<forall>x \<in> set (map (\<lambda>r. generate_status_tree r q) rs). \<not> isl x"
    using GroupResult.IH(1) GroupResult.prems by fastforce
  then obtain cs where cs: "collect (map (\<lambda>r. generate_status_tree r q) rs) = Inr cs"
    using collect_Inr by blast
  from GroupResult.prems obtain m where m: "q j = Some m" by auto
  show ?case
  proof (cases p)
    case None
    with cs m show ?thesis by simp
  next
    case (Some r)
    then have "\<exists>t. generate_status_tree r q = Inr t"
      using GroupResult.IH(2) GroupResult.prems by auto
    with cs m Some show ?thesis by auto
  qed
qed

text \<open>With \<^verbatim>\<open>get_celery_task\<close> bound and the topology stored, a lookup that fails for
  one node makes the whole query fail, and no tree is returned.\<close>

lemma status_query_fails_whole:
  assumes "args_get a ''task_id'' = Some task_id" and "task_id \<noteq> []"
    and "db_get_celery_task db = Some load" and "load (store w) task_id = Some t"
    and "i \<in> set (result_ids (result_of_tuple t))" and "live w i = None"
  shows "TaskStatus_get db w a = (Inl BackendUnavailable, w)"
  using assms generate_status_tree_fails [of i "result_of_tuple t" "live w"]
  by (simp add: TaskStatus_get_def result_from_tuple_def)

lemma stored_fin:
  "celery_tasks (store world_status)
     = [(''fin'',
         RTuple ''fin''
           (Some (RTuple ''grp'' None
                    (Some [RTuple ''leaf-a'' None None, RTuple ''leaf-b'' None None])))
           None)]"
  by (simp add: world_status_def mongo_chord_def)

lemma status_fin_bound:
  "TaskStatus_get mongo_tools world_status [(''task_id'', ''fin'')]
     = (Inl BackendUnavailable, world_status)"
proof -
  have a: "args_get [(''task_id'', ''fin'')] ''task_id'' = Some ''fin''"
    by (simp add: args_get_def)
  have b: "''fin'' \<noteq> []" by simp
  have c: "db_get_celery_task mongo_tools = Some get_celery_task"
    by (simp add: mongo_tools_def)
  have d: "get_celery_task (store world_status) ''fin'' =
             Some (RTuple ''fin''
                     (Some (RTuple ''grp'' None
                              (Some [RTuple ''leaf-a'' None None, RTuple ''leaf-b'' None None])))
                     None)"
    by (simp add: stored_fin get_celery_task_def)
  have e: "''leaf-b'' \<in> set (result_ids (result_of_tuple
             (RTuple ''fin''
                (Some (RTuple ''grp'' None
                         (Some [RTuple ''leaf-a'' None None, RTuple ''leaf-b'' None None])))
                None)))"
    by simp
  have f: "live world_status ''leaf-b'' = None"
    by (simp add: world_status_def live_b_down_def)
  show ?thesis by (rule status_query_fails_whole [OF a b c d e f])
qed

text \<open>
  Claim C7. The claim: a status query on a persisted topology in which the live-state
  lookup of at least one node fails ends as a whole in the \<^verbatim>\<open>BackendUnavailable\<close>
  outcome, never in a tree with a missing branch. The code, on the identifier \<^verbatim>\<open>fin\<close>
  whose topology is in the store and whose node \<^verbatim>\<open>leaf-b\<close> the backend cannot look up:
  \<^verbatim>\<open>db.get_celery_task\<close> is not bound, and the handler raises \<^verbatim>\<open>AttributeError\<close>
  before it loads the topology or queries any node.
\<close>

theorem C7_lookup_failure_not_reached:
  "celery_tasks (store world_status)
     = [(''fin'',
         RTuple ''fin''
           (Some (RTuple ''grp'' None
                    (Some [RTuple ''leaf-a'' None None, RTuple ''leaf-b'' None None])))
           None)]
   \<and> live world_status ''leaf-b'' = None
   \<and> TaskStatus_get redis_tools world_status [(''task_id'', ''fin'')]
       = (Inl (AttributeError ''get_celery_task''), world_status)
   \<and> TaskStatus_get redis_tools world_status [(''task_id'', ''fin'')]
       \<noteq> (Inl BackendUnavailable, world_status)"
proof -
  have down: "live world_status ''leaf-b'' = None"
    by (simp add: world_status_def live_b_down_def)
  have raised: "TaskStatus_get redis_tools world_status [(''task_id'', ''fin'')]
                  = (Inl (AttributeError ''get_celery_task''), world_status)"
    by (simp add: TaskStatus_get_def args_get_def redis_tools_def)
  then have other: "TaskStatus_get redis_tools world_status [(''task_id'', ''fin'')]
                      \<noteq> (Inl BackendUnavailable, world_status)"
    by simp
  show ?thesis
    using stored_fin down raised other by (intro conjI)
qed

section \<open>The store module as written\<close>

text \<open>
  Claim C8. With the store module as \<^verbatim>\<open>redis_tools.py\<close> is written, every handler
  raises an exception once it reaches one of its calls \<^verbatim>\<open>db.table_exists\<close>,
  \<^verbatim>\<open>db.get_table\<close>, \<^verbatim>\<open>db.get_celery_task\<close>, \<^verbatim>\<open>db.save_celery_task\<close> or
  \<^verbatim>\<open>db.purge\<close>, for every request and every state: \<^verbatim>\<open>/ingest-data\<close> on a bucket
  that has tables, \<^verbatim>\<open>/task-status\<close> with an identifier, \<^verbatim>\<open>/purge\<close> always, the lines
  of \<^verbatim>\<open>/profile-valentine\<close> and \<^verbatim>\<open>/add-table\<close> after the checks on the object store,
  and the three submissions; \<^verbatim>\<open>/profile-valentine\<close> and \<^verbatim>\<open>/add-table\<close> as a whole
  raise as soon as their parameters are given and the bucket exists.
\<close>

theorem C8_store_calls_raise:
  "(\<forall>b paths. args_get a ''bucket'' = Some b \<and> b \<noteq> [] \<and> bucket_exists (objects w) b
       \<and> get_tables (objects w) b = Inr paths \<and> paths \<noteq> []
       \<longrightarrow> IngestData_get redis_tools w a = (Inl (AttributeError ''table_exists''), w))
   \<and> (\<forall>i. args_get a ''task_id'' = Some i \<and> i \<noteq> []
       \<longrightarrow> TaskStatus_get redis_tools w a = (Inl (AttributeError ''get_celery_task''), w))
   \<and> Purge_get redis_tools w = (Inl (AttributeError ''purge''), w)
   \<and> ProfileValentine_after_guards redis_tools w bucket table_path
       = (Inl (AttributeError ''table_exists''), w)
   \<and> AddTable_after_guards redis_tools w bucket table_path
       = (Inl (AttributeError ''get_table''), w)
   \<and> fst (ingest_submit redis_tools w bucket header) = Inl (AttributeError ''save_celery_task'')
   \<and> fst (star_submit redis_tools w bucket table_path) = Inl (AttributeError ''save_celery_task'')
   \<and> fst (chain_submit redis_tools w bucket table_path) = Inl (AttributeError ''save_celery_task'')
   \<and> (\<forall>b p. args_get a ''bucket'' = Some b \<and> b \<noteq> [] \<and> args_get a ''table_path'' = Some p
       \<and> p \<noteq> [] \<and> bucket_exists (objects w) b
       \<longrightarrow> isl (fst (ProfileValentine_get redis_tools w a))
           \<and> isl (fst (AddTable_get redis_tools w a)))"
proof -
  have ingest: "IngestData_get redis_tools w a = (Inl (AttributeError ''table_exists''), w)"
    if "args_get a ''bucket'' = Some b" "b \<noteq> []" "bucket_exists (objects w) b"
       "get_tables (objects w) b = Inr paths" "paths \<noteq> []" for b paths
    using that ingest_header_unbound [of paths "store w" b "[]"]
    by (simp add: IngestData_get_def)
  have status: "TaskStatus_get redis_tools w a = (Inl (AttributeError ''get_celery_task''), w)"
    if "args_get a ''task_id'' = Some i" "i \<noteq> []" for i
    using that by (simp add: TaskStatus_get_def redis_tools_def)
  have purge: "Purge_get redis_tools w = (Inl (AttributeError ''purge''), w)"
    by (simp add: Purge_get_def redis_tools_def)
  have pv: "ProfileValentine_after_guards redis_tools w bucket table_path
              = (Inl (AttributeError ''table_exists''), w)"
    by (simp add: ProfileValentine_after_guards_def redis_tools_def)
  have at: "AddTable_after_guards redis_tools w bucket table_path
              = (Inl (AttributeError ''get_table''), w)"
    by (simp add: AddTable_after_guards_def redis_tools_def)
  have star: "fst (star_submit redis_tools w bucket table_path)
                = Inl (AttributeError ''save_celery_task'')"
    by (simp add: star_submit_def delay_def Let_def redis_tools_def)
  have chain: "fst (chain_submit redis_tools w bucket table_path)
                 = Inl (AttributeError ''save_celery_task'')"
    by (simp add: chain_submit_def apply_chain_def Let_def redis_tools_def)
  have full: "isl (fst (ProfileValentine_get redis_tools w a))
              \<and> isl (fst (AddTable_get redis_tools w a))"
    if "args_get a ''bucket'' = Some b" "b \<noteq> []" "args_get a ''table_path'' = Some p" "p \<noteq> []"
       "bucket_exists (objects w) b" for b p
    using that
    by (simp add: ProfileValentine_get_def AddTable_get_def Let_def table_exists_NameError)
  show ?thesis
    using ingest status purge pv at ingest_submit_unbound star chain full by blast
qed

text \<open>Requests on the bucket \<^verbatim>\<open>data\<close> and on the stored topology \<^verbatim>\<open>fin\<close>.\<close>

theorem C8_store_calls_raise_witness:
  "IngestData_get redis_tools world_status [(''bucket'', ''data'')]
     = (Inl (AttributeError ''table_exists''), world_status)
   \<and> TaskStatus_get redis_tools world_status [(''task_id'', ''fin'')]
     = (Inl (AttributeError ''get_celery_task''), world_status)
   \<and> Purge_get redis_tools world_status = (Inl (AttributeError ''purge''), world_status)
   \<and> isl (fst (AddTable_get redis_tools world_status
                 [(''bucket'', ''data''), (''table_path'', ''A'')]))"
proof -
  have obj: "objects world_status = bucket_AB" by (simp add: world_status_def)
  have g1: "args_get [(''bucket'', ''data'')] ''bucket'' = Some ''data'' \<and> ''data'' \<noteq> []
            \<and> bucket_exists (objects world_status) ''data''
            \<and> get_tables (objects world_status) ''data'' = Inr [''A'', ''B'']
            \<and> [''A'', ''B''] \<noteq> []"
    by (simp add: args_get_def obj data_bucket)
  have g2: "args_get [(''task_id'', ''fin'')] ''task_id'' = Some ''fin'' \<and> ''fin'' \<noteq> []"
    by (simp add: args_get_def)
  have g3: "args_get [(''bucket'', ''data''), (''table_path'', ''A'')] ''bucket'' = Some ''data''
            \<and> ''data'' \<noteq> []
            \<and> args_get [(''bucket'', ''data''), (''table_path'', ''A'')] ''table_path'' = Some ''A''
            \<and> ''A'' \<noteq> [] \<and> bucket_exists (objects world_status) ''data''"
    by (simp add: args_get_def obj data_bucket)
  have i: "IngestData_get redis_tools world_status [(''bucket'', ''data'')]
             = (Inl (AttributeError ''table_exists''), world_status)"
    using C8_store_calls_raise [of "[(''bucket'', ''data'')]" world_status "''data''" "''A''" "[]",
        THEN conjunct1] g1
    by blast
  have t: "TaskStatus_get redis_tools world_status [(''task_id'', ''fin'')]
             = (Inl (AttributeError ''get_celery_task''), world_status)"
    using C8_store_calls_raise [of "[(''task_id'', ''fin'')]" world_status "''data''" "''A''" "[]",
        THEN conjunct2, THEN conjunct1] g2
    by blast
  have p: "Purge_get redis_tools world_status = (Inl (AttributeError ''purge''), world_status)"
    using C8_store_calls_raise [of "[]" world_status "''data''" "''A''" "[]",
        THEN conjunct2, THEN conjunct2, THEN conjunct1]
    by simp
  have "isl (fst (ProfileValentine_get redis_tools world_status
                    [(''bucket'', ''data''), (''table_path'', ''A'')]))
        \<and> isl (fst (AddTable_get redis_tools world_status
                    [(''bucket'', ''data''), (''table_path'', ''A'')]))"
    using C8_store_calls_raise [of "[(''bucket'', ''data''), (''table_path'', ''A'')]"
        world_status "''data''" "''A''" "[]", THEN conjunct2, THEN conjunct2, THEN conjunct2,
        THEN conjunct2, THEN conjunct2, THEN conjunct2, THEN conjunct2, THEN conjunct2] g3
    by blast
  then show ?thesis using i t p by simp
qed

section \<open>The object-store existence check never returns\<close>

text \<open>
  Claim C9. For every bucket and table path, \<^verbatim>\<open>io_tools.table_exists\<close> raises
  \<^verbatim>\<open>NameError\<close> for the name \<^verbatim>\<open>path\<close> and returns neither \<^verbatim>\<open>True\<close> nor
  \<^verbatim>\<open>False\<close>. So, whatever the store module, the state and the request,
  \<^verbatim>\<open>/profile-valentine\<close>, \<^verbatim>\<open>/add-table\<close> and \<^verbatim>\<open>/get-table-csv\<close> end in one of
  three ways only: the missing-parameter response, the missing-bucket response, or that
  \<^verbatim>\<open>NameError\<close>; they reach neither "Table does not exist" nor a success response.
\<close>

theorem C9_table_exists_never_returns:
  "table_exists m bucket table_path = Inl (NameError ''path'')
   \<and> ProfileValentine_get db w a \<in>
       {(Inr (Response (Text ''Missing table path or bucket query parameters'') 400), w),
        (Inr (Response (Text ''Bucket does not exist'') 404), w),
        (Inl (NameError ''path''), w)}
   \<and> AddTable_get db w a \<in>
       {(Inr (Response (Text ''Missing table path or bucket query parameters'') 400), w),
        (Inr (Response (Text ''Bucket does not exist'') 404), w),
        (Inl (NameError ''path''), w)}
   \<and> GetTableCSV_get w a \<in>
       {(Inr (Response (Text ''Missing table path, rows or bucket query parameters'') 400), w),
        (Inr (Response (Text ''Bucket does not exist'') 404), w),
        (Inl (NameError ''path''), w)}"
proof -
  have pv: "ProfileValentine_get db w a \<in>
       {(Inr (Response (Text ''Missing table path or bucket query parameters'') 400), w),
        (Inr (Response (Text ''Bucket does not exist'') 404), w),
        (Inl (NameError ''path''), w)}"
    by (simp add: ProfileValentine_get_def table_exists_NameError Let_def split: option.split)
  have at: "AddTable_get db w a \<in>
       {(Inr (Response (Text ''Missing table path or bucket query parameters'') 400), w),
        (Inr (Response (Text ''Bucket does not exist'') 404), w),
        (Inl (NameError ''path''), w)}"
    by (simp add: AddTable_get_def table_exists_NameError Let_def split: option.split)
  have csv: "GetTableCSV_get w a \<in>
       {(Inr (Response (Text ''Missing table path, rows or bucket query parameters'') 400), w),
        (Inr (Response (Text ''Bucket does not exist'') 404), w),
        (Inl (NameError ''path''), w)}"
    by (simp add: GetTableCSV_get_def GetTableCSV_get_with_def table_exists_NameError Let_def
        split: option.split)
  show ?thesis using pv at csv table_exists_NameError by blast
qed

text \<open>The table \<^verbatim>\<open>A\<close> is in the bucket \<^verbatim>\<open>data\<close>, and the check raises all the same;
  so does a request for its first row.\<close>

theorem C9_table_exists_never_returns_witness:
  "table_exists bucket_AB ''data'' ''A'' = Inl (NameError ''path'')
   \<and> GetTableCSV_get (world0 ()) [(''bucket'', ''data''), (''table_path'', ''A''), (''rows'', ''1'')]
       = (Inl (NameError ''path''), world0 ())"
proof -
  let ?a = "[(''bucket'', ''data''), (''table_path'', ''A''), (''rows'', ''1'')]"
  have rows: "args_get_typed py_int ?a ''rows'' = Some 1"
    by (simp add: args_get_typed_def py_int_def strip_def is_space_def digit_val_def
        digit_count_def max_str_digits_def)
  have bucket: "bucket_exists (objects (world0 ())) ''data''"
    by (simp add: bucket_exists_def minio_bucket_exists_def world0_def bucket_AB_def)
  have "GetTableCSV_get (world0 ()) ?a \<noteq>
          (Inr (Response (Text ''Missing table path, rows or bucket query parameters'') 400),
           world0 ())"
    using rows bucket
    by (simp add: GetTableCSV_get_def GetTableCSV_get_with_def Let_def args_get_def
        table_exists_NameError)
  moreover have "GetTableCSV_get (world0 ()) ?a \<noteq>
          (Inr (Response (Text ''Bucket does not exist'') 404), world0 ())"
    using rows bucket
    by (simp add: GetTableCSV_get_def GetTableCSV_get_with_def Let_def args_get_def
        table_exists_NameError)
  ultimately show ?thesis
    using C9_table_exists_never_returns [of bucket_AB "''data''" "''A''" redis_tools "world0 ()" ?a]
    by simp
qed

section \<open>The \<^verbatim>\<open>rows\<close> parameter of \<^verbatim>\<open>/get-table-csv\<close>\<close>

lemma map_of_filter_key: "map_of (filter (\<lambda>kv. fst kv \<noteq> k) a) k = None"
  by (induction a) auto

text \<open>What \<^verbatim>\<open>int\<close> makes of some values of \<^verbatim>\<open>rows\<close>: the separator 0x1F is not
  skipped, NBSP and NEL are, a sign may not stand alone, and more than 4300 digits are
  refused.\<close>

lemma py_int_values:
  "py_int ''0'' = Some 0" "py_int ''abc'' = None" "py_int [] = None"
  "py_int '' -0 '' = Some 0" "py_int ''00'' = Some 0" "py_int ''1_0'' = Some 10"
  "py_int ''1__0'' = None" "py_int ''-'' = None" "py_int ''- 1'' = None"
  "py_int [CHR 0x1F, CHR ''5''] = None" "py_int [CHR 0xA0, CHR ''5''] = Some 5"
  "py_int [CHR 0x85, CHR ''0'', CHR 0x0A] = Some 0" "py_int [CHR ''5'', CHR 0x00] = None"
  by (simp_all add: py_int_def strip_def is_space_def digit_val_def digit_count_def
      max_str_digits_def)

lemma py_int_digit_limit: "max_str_digits < digit_count (strip s) \<Longrightarrow> py_int s = None"
proof (cases "strip s")
  case Nil
  then show ?thesis by (simp add: py_int_def)
next
  case (Cons c cs)
  assume limit: "max_str_digits < digit_count (strip s)"
  have sign: "digit_count (c # cs) = digit_count cs" if "c = CHR ''-'' \<or> c = CHR ''+''"
    using that by (auto simp add: digit_count_def digit_val_def)
  show ?thesis
    using Cons limit sign
    by (auto simp add: py_int_def Let_def split: option.splits)
qed

text \<open>
  Claim C10. For every \<^verbatim>\<open>/get-table-csv\<close> request whose \<^verbatim>\<open>rows\<close> parameter parses
  to the integer 0 or does not parse as an integer, the response is status 400 with
  "Missing table path, rows or bucket query parameters", the same outcome as for the request
  with the \<^verbatim>\<open>rows\<close> parameter removed; no CSV is returned. The statement is about the
  outcome of the conversion, whatever the conversion is: it holds for \<^verbatim>\<open>int\<close> on every
  value, in whatever characters the value is written.
\<close>

theorem C10_rows_zero_or_unparsable:
  assumes "map_of a ''rows'' = Some r" and "conv r = Some 0 \<or> conv r = None"
  shows "GetTableCSV_get_with conv w a =
           (Inr (Response (Text ''Missing table path, rows or bucket query parameters'') 400), w)
         \<and> GetTableCSV_get_with conv w a
           = GetTableCSV_get_with conv w (filter (\<lambda>kv. fst kv \<noteq> ''rows'') a)"
proof -
  have given: "args_get_typed conv a ''rows'' = Some 0 \<or> args_get_typed conv a ''rows'' = None"
    using assms by (auto simp add: args_get_typed_def)
  have absent: "args_get_typed conv (filter (\<lambda>kv. fst kv \<noteq> ''rows'') a) ''rows'' = None"
    by (simp add: args_get_typed_def map_of_filter_key)
  have r: "GetTableCSV_get_with conv w b =
             (Inr (Response (Text ''Missing table path, rows or bucket query parameters'') 400), w)"
    if "args_get_typed conv b ''rows'' = Some 0 \<or> args_get_typed conv b ''rows'' = None" for b
    using that by (auto simp add: GetTableCSV_get_with_def Let_def split: option.split)
  show ?thesis
    using r [OF given] r [of "filter (\<lambda>kv. fst kv \<noteq> ''rows'') a"] absent by simp
qed

text \<open>The handler of \<^verbatim>\<open>app.py\<close> on the requests \<^verbatim>\<open>rows=0\<close>, \<^verbatim>\<open>rows=abc\<close> and
  \<^verbatim>\<open>rows=%1F5\<close> for an existing table.\<close>

theorem C10_rows_zero_or_unparsable_witness:
  "py_int ''0'' = Some 0 \<and> py_int ''abc'' = None \<and> py_int [CHR 0x1F, CHR ''5''] = None
   \<and> GetTableCSV_get (world0 ()) [(''bucket'', ''data''), (''table_path'', ''A''), (''rows'', ''0'')]
       = (Inr (Response (Text ''Missing table path, rows or bucket query parameters'') 400),
          world0 ())
   \<and> GetTableCSV_get (world0 ()) [(''bucket'', ''data''), (''table_path'', ''A''), (''rows'', ''abc'')]
       = (Inr (Response (Text ''Missing table path, rows or bucket query parameters'') 400),
          world0 ())
   \<and> GetTableCSV_get (world0 ())
         [(''bucket'', ''data''), (''table_path'', ''A''), (''rows'', [CHR 0x1F, CHR ''5''])]
       = (Inr (Response (Text ''Missing table path, rows or bucket query parameters'') 400),
          world0 ())"
proof -
  have k0: "map_of [(''bucket'', ''data''), (''table_path'', ''A''), (''rows'', ''0'')] ''rows''
              = Some ''0''"
    by simp
  have k1: "map_of [(''bucket'', ''data''), (''table_path'', ''A''), (''rows'', ''abc'')] ''rows''
              = Some ''abc''"
    by simp
  have k2: "map_of [(''bucket'', ''data''), (''table_path'', ''A''),
                    (''rows'', [CHR 0x1F, CHR ''5''])] ''rows''
              = Some [CHR 0x1F, CHR ''5'']"
    by simp
  have z: "py_int ''0'' = Some 0 \<or> py_int ''0'' = None" using py_int_values(1) by simp
  have n: "py_int ''abc'' = Some 0 \<or> py_int ''abc'' = None" using py_int_values(2) by simp
  have u: "py_int [CHR 0x1F, CHR ''5''] = Some 0 \<or> py_int [CHR 0x1F, CHR ''5''] = None"
    using py_int_values(10) by simp
  show ?thesis
    using C10_rows_zero_or_unparsable [where conv = py_int and w = "world0 ()", OF k0 z]
          C10_rows_zero_or_unparsable [where conv = py_int and w = "world0 ()", OF k1 n]
          C10_rows_zero_or_unparsable [where conv = py_int and w = "world0 ()", OF k2 u]
          py_int_values(1,2,10)
    by (simp add: GetTableCSV_get_def)
qed

end
